theory Spec2Isabelle
  imports Complex_Main "HOL-Library.AList"
begin

section \<open>JavaScript numbers\<close>

text \<open>
  The application stores every amount as a JavaScript \<^verbatim>\<open>number\<close>. A number is
  modelled as \<open>NaN\<close>, one of the two infinities, or a finite value. Finite values are
  exact rationals: rounding to the nearest double, overflow to an infinity and the
  sign of zero are not modelled.
\<close>

datatype jsnum = NaN | NegInf | Fin rat | PosInf

fun js_neg :: "jsnum \<Rightarrow> jsnum" where
  "js_neg NaN = NaN"
| "js_neg NegInf = PosInf"
| "js_neg PosInf = NegInf"
| "js_neg (Fin a) = Fin (- a)"

fun js_add :: "jsnum \<Rightarrow> jsnum \<Rightarrow> jsnum" where
  "js_add NaN _ = NaN"
| "js_add _ NaN = NaN"
| "js_add PosInf NegInf = NaN"
| "js_add NegInf PosInf = NaN"
| "js_add PosInf _ = PosInf"
| "js_add _ PosInf = PosInf"
| "js_add NegInf _ = NegInf"
| "js_add _ NegInf = NegInf"
| "js_add (Fin a) (Fin b) = Fin (a + b)"

definition js_sub :: "jsnum \<Rightarrow> jsnum \<Rightarrow> jsnum" where
  "js_sub a b = js_add a (js_neg b)"


text \<open>\<^verbatim>\<open>a > b\<close>: every comparison with \<open>NaN\<close> is false.\<close>

fun js_gt :: "jsnum \<Rightarrow> jsnum \<Rightarrow> bool" where
  "js_gt NaN _ = False"
| "js_gt _ NaN = False"
| "js_gt NegInf _ = False"
| "js_gt _ PosInf = False"
| "js_gt PosInf _ = True"
| "js_gt _ NegInf = True"
| "js_gt (Fin a) (Fin b) = (b < a)"

fun js_mul :: "jsnum \<Rightarrow> jsnum \<Rightarrow> jsnum" where
  "js_mul NaN _ = NaN"
| "js_mul _ NaN = NaN"
| "js_mul (Fin a) (Fin b) = Fin (a * b)"
| "js_mul (Fin a) PosInf = (if a = 0 then NaN else if 0 < a then PosInf else NegInf)"
| "js_mul (Fin a) NegInf = (if a = 0 then NaN else if 0 < a then NegInf else PosInf)"
| "js_mul PosInf (Fin b) = (if b = 0 then NaN else if 0 < b then PosInf else NegInf)"
| "js_mul NegInf (Fin b) = (if b = 0 then NaN else if 0 < b then NegInf else PosInf)"
| "js_mul PosInf PosInf = PosInf"
| "js_mul NegInf NegInf = PosInf"
| "js_mul PosInf NegInf = NegInf"
| "js_mul NegInf PosInf = NegInf"

text \<open>\<^verbatim>\<open>a / b\<close>. A zero divisor is taken to be \<open>+0\<close>.\<close>

fun js_div :: "jsnum \<Rightarrow> jsnum \<Rightarrow> jsnum" where
  "js_div NaN _ = NaN"
| "js_div _ NaN = NaN"
| "js_div (Fin a) (Fin b) =
     (if b = 0 then (if a = 0 then NaN else if 0 < a then PosInf else NegInf)
      else Fin (a / b))"
| "js_div (Fin a) PosInf = Fin 0"
| "js_div (Fin a) NegInf = Fin 0"
| "js_div PosInf (Fin b) = (if 0 \<le> b then PosInf else NegInf)"
| "js_div NegInf (Fin b) = (if 0 \<le> b then NegInf else PosInf)"
| "js_div PosInf PosInf = NaN"
| "js_div PosInf NegInf = NaN"
| "js_div NegInf PosInf = NaN"
| "js_div NegInf NegInf = NaN"


text \<open>Truthiness of a string: only the empty string is falsy.\<close>

definition str_truthy :: "string \<Rightarrow> bool" where
  "str_truthy s = (s \<noteq> [])"

text \<open>
  Truthiness of an optional string (\<^verbatim>\<open>string | null | undefined\<close>): \<open>None\<close> stands
  for \<^verbatim>\<open>null\<close> and \<^verbatim>\<open>undefined\<close>.
\<close>

fun opt_truthy :: "string option \<Rightarrow> bool" where
  "opt_truthy None = False"
| "opt_truthy (Some s) = str_truthy s"

subsection \<open>parseFloat\<close>









section \<open>The ledger data model (types.ts)\<close>

text \<open>
  The fields \<^verbatim>\<open>id\<close>, \<^verbatim>\<open>name\<close>, \<^verbatim>\<open>type\<close> and \<^verbatim>\<open>note\<close> of the interfaces are
  \<open>pt_id\<close>, \<open>pj_id\<close> and \<open>tx_id\<close>, \<open>pt_name\<close> and \<open>pj_name\<close>, \<open>txType\<close> and \<open>txNote\<close>
  here; the other fields keep their names.
\<close>

datatype TransactionType = INVESTMENT | INCOME | EXPENSE | WITHDRAWAL

datatype ProjectStatus = active | completed | planning

record Partner =
  pt_id :: string
  pt_name :: string
  avatar :: string
  color :: string

text \<open>
  \<^verbatim>\<open>startDate\<close>, \<^verbatim>\<open>projectId\<close> and \<^verbatim>\<open>partnerId\<close> are the fields that the mapping from
  database rows writes with \<^verbatim>\<open>a || b\<close>, whose value can be \<^verbatim>\<open>undefined\<close> at run time;
  they are optional strings here, \<open>None\<close> standing for \<^verbatim>\<open>undefined\<close> and \<^verbatim>\<open>null\<close>.
\<close>

record Project =
  pj_id :: string
  pj_name :: string
  description :: string
  status :: ProjectStatus
  startDate :: "string option"

text \<open>\<^verbatim>\<open>Omit<Transaction, 'id'>\<close>, and \<^verbatim>\<open>Transaction\<close> as its extension by the id.\<close>

record TransactionDraft =
  projectId :: "string option"
  partnerId :: "string option"
  txType :: TransactionType
  amount :: jsnum
  date :: string
  txNote :: string

record Transaction = TransactionDraft +
  tx_id :: string

record AppState =
  partners :: "Partner list"
  projects :: "Project list"
  transactions :: "Transaction list"

section \<open>The application state and its handlers (App.tsx)\<close>

text \<open>
  What stops a handler before it changes anything: \<open>TypeError\<close> is thrown on reading
  the id of a \<^verbatim>\<open>null\<close> record, \<open>NullInserted\<close> marks the one result that no typed list
  can hold, \<open>MissingField\<close> is the silent return of the form without project or
  amount, \<open>SplitMismatch\<close> its return after the alert on a split that does not add up.
\<close>

datatype error =
    TypeError
  | NullInserted
  | MissingField
  | SplitMismatch

datatype alert = CannotDeletePartner | SaveFailed | DeleteFailed

text \<open>The answer of the remote store to one write.\<close>

datatype remote = RemoteOk | RemoteError

subsection \<open>Realtime change events\<close>

text \<open>
  A row of the change feed carries the columns of its table; the three renamed
  columns may come in either spelling.
\<close>

record ProjectRow =
  pr_id :: string
  pr_name :: string
  pr_description :: string
  pr_status :: ProjectStatus
  start_date :: "string option"
  pr_startDate :: "string option"

record TransactionRow =
  tr_id :: string
  project_id :: "string option"
  tr_projectId :: "string option"
  partner_id :: "string option"
  tr_partnerId :: "string option"
  tr_type :: TransactionType
  tr_amount :: jsnum
  tr_date :: string
  tr_note :: string

record 'r payload =
  eventType :: string
  new :: "'r option"
  old :: "'r option"

text \<open>\<^verbatim>\<open>a || b\<close> on optional strings.\<close>

definition js_or :: "string option \<Rightarrow> string option \<Rightarrow> string option" where
  "js_or a b = (if opt_truthy a then a else b)"

text \<open>\<^verbatim>\<open>mapRecord\<close>, one definition for each table; partner rows are returned as they are.\<close>

definition mapRecord_partners :: "Partner \<Rightarrow> Partner" where
  "mapRecord_partners rec = rec"

definition mapRecord_projects :: "ProjectRow \<Rightarrow> Project" where
  "mapRecord_projects rec =
     \<lparr>pj_id = pr_id rec, pj_name = pr_name rec, description = pr_description rec,
      status = pr_status rec, startDate = js_or (start_date rec) (pr_startDate rec)\<rparr>"

definition mapRecord_transactions :: "TransactionRow \<Rightarrow> Transaction" where
  "mapRecord_transactions rec =
     \<lparr>projectId = js_or (project_id rec) (tr_projectId rec),
      partnerId = js_or (partner_id rec) (tr_partnerId rec),
      txType = tr_type rec, amount = tr_amount rec, date = tr_date rec,
      txNote = tr_note rec, tx_id = tr_id rec\<rparr>"

text \<open>
  The body of the state updater of \<^verbatim>\<open>handleRealtimeUpdate\<close> on the list of one table.
  \<open>mapRec\<close> is the table's \<^verbatim>\<open>mapRecord\<close>, \<open>getId\<close> reads the id of a list item and
  \<open>rowId\<close> the id of a row. Reading \<^verbatim>\<open>.id\<close> of a \<^verbatim>\<open>null\<close> record throws; the callbacks
  of \<^verbatim>\<open>find\<close>, \<^verbatim>\<open>map\<close> and \<^verbatim>\<open>filter\<close> do so only when the list has an item. An INSERT
  of \<^verbatim>\<open>null\<close> into an empty list appends \<^verbatim>\<open>null\<close>, which no typed list holds:
  \<open>NullInserted\<close>. Any other event type leaves the list as it is.
\<close>

definition updatedList ::
  "('row \<Rightarrow> 'r) \<Rightarrow> ('r \<Rightarrow> string) \<Rightarrow> ('row \<Rightarrow> string) \<Rightarrow> 'row payload \<Rightarrow> 'r list
     \<Rightarrow> error + 'r list" where
  "updatedList mapRec getId rowId p xs =
     (if eventType p = ''INSERT'' then
        (case new p of
           None \<Rightarrow> if xs = [] then Inl NullInserted else Inl TypeError
         | Some newRecord \<Rightarrow>
             let record = mapRec newRecord
             in if find (\<lambda>item. getId item = getId record) xs = None
                then Inr (xs @ [record]) else Inr xs)
      else if eventType p = ''UPDATE'' then
        (case new p of
           None \<Rightarrow> if xs = [] then Inr xs else Inl TypeError
         | Some newRecord \<Rightarrow>
             let record = mapRec newRecord
             in Inr (map (\<lambda>item. if getId item = getId record then record else item) xs))
      else if eventType p = ''DELETE'' then
        (case old p of
           None \<Rightarrow> if xs = [] then Inr xs else Inl TypeError
         | Some oldRecord \<Rightarrow> Inr (filter (\<lambda>item. getId item \<noteq> rowId oldRecord) xs))
      else Inr xs)"

text \<open>The three subscriptions: the table and the payload of one change event.\<close>

datatype change =
    PartnersChange "Partner payload"
  | ProjectsChange "ProjectRow payload"
  | TransactionsChange "TransactionRow payload"

fun handleRealtimeUpdate :: "change \<Rightarrow> AppState \<Rightarrow> error + AppState" where
  "handleRealtimeUpdate (PartnersChange p) prev =
     (case updatedList mapRecord_partners pt_id pt_id p (partners prev) of
        Inl e \<Rightarrow> Inl e | Inr l \<Rightarrow> Inr (prev\<lparr>partners := l\<rparr>))"
| "handleRealtimeUpdate (ProjectsChange p) prev =
     (case updatedList mapRecord_projects pj_id pr_id p (projects prev) of
        Inl e \<Rightarrow> Inl e | Inr l \<Rightarrow> Inr (prev\<lparr>projects := l\<rparr>))"
| "handleRealtimeUpdate (TransactionsChange p) prev =
     (case updatedList mapRecord_transactions tx_id tr_id p (transactions prev) of
        Inl e \<Rightarrow> Inl e | Inr l \<Rightarrow> Inr (prev\<lparr>transactions := l\<rparr>))"

subsection \<open>Actions\<close>

text \<open>
  Each handler updates the local state first and then writes to the remote store; when
  the store answers with an error the handler takes its update back and alerts. A
  handler is modelled as one step from the state before to the alert raised, if any,
  and the state after. The id drawn from \<^verbatim>\<open>Math.random\<close> is a parameter.
\<close>




definition handleDeletePartner ::
  "string \<Rightarrow> remote \<Rightarrow> AppState \<Rightarrow> alert option \<times> AppState" where
  "handleDeletePartner i r dat =
     (let hasTransactions = list_ex (\<lambda>t. partnerId t = Some i) (transactions dat)
      in if hasTransactions then (Some CannotDeletePartner, dat)
         else
           let previousPartners = partners dat;
               prev = dat\<lparr>partners := filter (\<lambda>p. pt_id p \<noteq> i) (partners dat)\<rparr>
           in if r = RemoteError
              then (Some DeleteFailed, prev\<lparr>partners := previousPartners\<rparr>)
              else (None, prev))"


section \<open>Recording a transaction in the project view\<close>

















section \<open>Aggregation\<close>

subsection \<open>The totals of the dashboard\<close>

record Stats =
  totalInvestment :: jsnum
  totalIncome :: jsnum
  totalExpense :: jsnum
  netProfit :: jsnum

text \<open>The three running totals, and the body of the loop over the transactions.\<close>

record Totals =
  accInvestment :: jsnum
  accIncome :: jsnum
  accExpense :: jsnum

definition statsStep :: "Totals \<Rightarrow> Transaction \<Rightarrow> Totals" where
  "statsStep acc t =
     (if txType t = INVESTMENT then
        acc\<lparr>accInvestment := js_add (accInvestment acc) (amount t)\<rparr>
      else if txType t = EXPENSE then
        (let acc' = acc\<lparr>accExpense := js_add (accExpense acc) (amount t)\<rparr>
         in if opt_truthy (partnerId t)
            then acc'\<lparr>accInvestment := js_add (accInvestment acc') (amount t)\<rparr>
            else acc')
      else if txType t = INCOME then
        acc\<lparr>accIncome := js_add (accIncome acc) (amount t)\<rparr>
      else acc)"

definition stats :: "AppState \<Rightarrow> Stats" where
  "stats dat =
     (let acc = foldl statsStep
                  \<lparr>accInvestment = Fin 0, accIncome = Fin 0, accExpense = Fin 0\<rparr>
                  (transactions dat)
      in \<lparr>totalInvestment = accInvestment acc, totalIncome = accIncome acc,
          totalExpense = accExpense acc,
          netProfit = js_sub (accIncome acc) (accExpense acc)\<rparr>)"

subsection \<open>The shares of the partner summary\<close>

definition globalTotalInvestment :: "AppState \<Rightarrow> jsnum" where
  "globalTotalInvestment dat =
     foldl (\<lambda>sum t.
              if txType t = INVESTMENT then js_add sum (amount t)
              else if txType t = EXPENSE \<and> opt_truthy (partnerId t) then js_add sum (amount t)
              else sum)
       (Fin 0) (transactions dat)"

definition globalPartnerInvested :: "AppState \<Rightarrow> Partner \<Rightarrow> jsnum" where
  "globalPartnerInvested dat partner =
     foldl (\<lambda>sum t. js_add sum (amount t)) (Fin 0)
       (filter (\<lambda>t. partnerId t = Some (pt_id partner)
                     \<and> (txType t = INVESTMENT \<or> txType t = EXPENSE))
          (transactions dat))"

definition sharePercent :: "AppState \<Rightarrow> Partner \<Rightarrow> jsnum" where
  "sharePercent dat partner =
     (if js_gt (globalTotalInvestment dat) (Fin 0)
      then js_mul (js_div (globalPartnerInvested dat partner) (globalTotalInvestment dat))
             (Fin 100)
      else Fin 0)"

section \<open>Notions of the specification\<close>

text \<open>The sum of a list of numbers, and of the amounts of a list of transactions.\<close>

definition sumNums :: "jsnum list \<Rightarrow> jsnum" where
  "sumNums xs = foldr js_add xs (Fin 0)"

definition sumAmounts :: "'a TransactionDraft_scheme list \<Rightarrow> jsnum" where
  "sumAmounts ts = sumNums (map amount ts)"





text \<open>The event type of a change event.\<close>

fun changeEventType :: "change \<Rightarrow> string" where
  "changeEventType (PartnersChange p) = eventType p"
| "changeEventType (ProjectsChange p) = eventType p"
| "changeEventType (TransactionsChange p) = eventType p"

text \<open>
  What a partner has put in: the sum of the amounts of the partner's INVESTMENT and
  EXPENSE transactions.
\<close>

definition investedBy :: "AppState \<Rightarrow> Partner \<Rightarrow> jsnum" where
  "investedBy dat partner =
     sumAmounts (filter (\<lambda>t. partnerId t = Some (pt_id partner)
                              \<and> (txType t = INVESTMENT \<or> txType t = EXPENSE))
                   (transactions dat))"

text \<open>The value of a finite number.\<close>

fun finiteValue :: "jsnum \<Rightarrow> rat" where
  "finiteValue (Fin a) = a"
| "finiteValue _ = 0"

section \<open>Example data\<close>

text \<open>
  A small ledger: two partners, the project \<open>P\<close> and a second project \<open>Q\<close>, and the two
  investments of the initial data of the application.
\<close>

definition ex_state :: AppState where
  "ex_state =
     \<lparr>partners =
        [\<lparr>pt_id = ''p1'', pt_name = ''A'', avatar = ''a'', color = ''#818CF8''\<rparr>,
         \<lparr>pt_id = ''p2'', pt_name = ''B'', avatar = ''b'', color = ''#34D399''\<rparr>],
      projects =
        [\<lparr>pj_id = ''P'', pj_name = ''Coffee Shop'', description = '''', status = active,
          startDate = Some ''2023-01-15''\<rparr>,
         \<lparr>pj_id = ''Q'', pj_name = ''Bakery'', description = '''', status = planning,
          startDate = Some ''2023-02-01''\<rparr>],
      transactions =
        [\<lparr>projectId = Some ''P'', partnerId = Some ''p1'', txType = INVESTMENT,
          amount = Fin 500000, date = ''2023-01-15'', txNote = '''', tx_id = ''t1''\<rparr>,
         \<lparr>projectId = Some ''P'', partnerId = Some ''p2'', txType = INVESTMENT,
          amount = Fin 300000, date = ''2023-01-16'', txNote = '''', tx_id = ''t2''\<rparr>]\<rparr>"



text \<open>
  The ledger after an expense of 1000 on \<open>P\<close>, 400 of it from the central pool and 600
  paid by partner \<open>p1\<close>, and an income of 2000.
\<close>

definition ex_ledger :: AppState where
  "ex_ledger =
     ex_state\<lparr>transactions := transactions ex_state @
        [\<lparr>projectId = Some ''P'', partnerId = None, txType = EXPENSE,
          amount = Fin 400, date = ''2024-01-01'', txNote = ''rent'', tx_id = ''t3''\<rparr>,
         \<lparr>projectId = Some ''P'', partnerId = Some ''p1'', txType = EXPENSE,
          amount = Fin 600, date = ''2024-01-01'', txNote = ''rent'', tx_id = ''t4''\<rparr>,
         \<lparr>projectId = Some ''P'', partnerId = None, txType = INCOME,
          amount = Fin 2000, date = ''2024-02-01'', txNote = ''sales'', tx_id = ''t5''\<rparr>]\<rparr>"








text \<open>
  Rows of the change feed: the echo of the investment \<open>t1\<close>, which the ledger already
  has, the same investment with the amount changed, and a row with a new id.
\<close>

definition ex_row_echo :: TransactionRow where
  "ex_row_echo =
     \<lparr>tr_id = ''t1'', project_id = Some ''P'', tr_projectId = None,
      partner_id = Some ''p1'', tr_partnerId = None, tr_type = INVESTMENT,
      tr_amount = Fin 500000, tr_date = ''2023-01-15'', tr_note = ''''\<rparr>"

definition ex_row_changed :: TransactionRow where
  "ex_row_changed = ex_row_echo\<lparr>tr_amount := Fin 550000\<rparr>"

definition ex_row_new :: TransactionRow where
  "ex_row_new =
     \<lparr>tr_id = ''t9'', project_id = Some ''Q'', tr_projectId = None,
      partner_id = None, tr_partnerId = None, tr_type = INCOME,
      tr_amount = Fin 70, tr_date = ''2024-03-01'', tr_note = ''sales''\<rparr>"

section \<open>Arithmetic of the number model\<close>

lemma js_add_commute: "js_add a b = js_add b a"
  by (cases a; cases b) (simp_all add: add.commute)

lemma js_add_assoc: "js_add (js_add a b) c = js_add a (js_add b c)"
  by (cases a; cases b; cases c) (simp_all add: add.assoc)

lemma js_add_left_commute: "js_add a (js_add b c) = js_add b (js_add a c)"
  by (cases a; cases b; cases c) (simp_all add: add.left_commute)

lemma js_add_zero_left: "js_add (Fin 0) a = a"
  by (cases a) simp_all

lemma js_add_zero_right: "js_add a (Fin 0) = a"
  by (cases a) simp_all

lemmas js_add_ac = js_add_assoc js_add_commute js_add_left_commute

lemma sumAmounts_Nil: "sumAmounts [] = Fin 0"
  by (simp add: sumAmounts_def sumNums_def)

lemma sumAmounts_Cons: "sumAmounts (t # ts) = js_add (amount t) (sumAmounts ts)"
  by (simp add: sumAmounts_def sumNums_def)


lemma sumNums_Nil: "sumNums [] = Fin 0"
  by (simp add: sumNums_def)

lemma sumNums_Cons: "sumNums (x # xs) = js_add x (sumNums xs)"
  by (simp add: sumNums_def)


text \<open>A left fold that adds up is the start value plus the sum.\<close>

lemma foldl_js_add:
  "foldl (\<lambda>sum v. js_add sum (g v)) acc vs = js_add acc (sumNums (map g vs))"
  by (induction vs arbitrary: acc)
     (simp_all add: sumNums_Nil sumNums_Cons js_add_zero_right js_add_assoc)

section \<open>The split total\<close>
















section \<open>Adding transactions\<close>









section \<open>Conservation of a split\<close>




section \<open>An expense funded from another project\<close>



section \<open>A split that does not add up\<close>



section \<open>Requests that are rejected\<close>




section \<open>The totals of the dashboard\<close>

text \<open>The loop over the transactions adds, to each running total, the sum of its part.\<close>

lemma foldl_statsStep:
  "foldl statsStep acc ts =
     \<lparr>accInvestment =
        js_add (accInvestment acc)
          (js_add (sumAmounts (filter (\<lambda>t. txType t = INVESTMENT) ts))
             (sumAmounts (filter (\<lambda>t. txType t = EXPENSE \<and> opt_truthy (partnerId t)) ts))),
      accIncome = js_add (accIncome acc) (sumAmounts (filter (\<lambda>t. txType t = INCOME) ts)),
      accExpense = js_add (accExpense acc) (sumAmounts (filter (\<lambda>t. txType t = EXPENSE) ts))\<rparr>"
proof (induction ts arbitrary: acc)
  case Nil
  show ?case by (simp add: sumAmounts_Nil js_add_zero_right)
next
  case (Cons t ts)
  show ?case
    by (simp only: foldl_Cons Cons.IH)
       (simp add: statsStep_def sumAmounts_Cons Let_def js_add_ac)
qed

text \<open>
  C5. For every snapshot, \<open>totalInvestment\<close> is the sum of the amounts of the
  INVESTMENT transactions plus the sum of the amounts of the EXPENSE transactions
  with a partner id, \<open>totalIncome\<close> the sum over the INCOME transactions,
  \<open>totalExpense\<close> the sum over all EXPENSE transactions (an EXPENSE with a partner id
  counts in both), and \<open>netProfit\<close> is \<open>totalIncome\<close> minus \<open>totalExpense\<close>. The code
  tests the partner id for truthiness; where no transaction has the empty string as
  its partner id, that is the test that the partner id is there.
\<close>

theorem dashboard_totals:
  "totalInvestment (stats dat) =
     js_add (sumAmounts (filter (\<lambda>t. txType t = INVESTMENT) (transactions dat)))
       (sumAmounts (filter (\<lambda>t. txType t = EXPENSE \<and> opt_truthy (partnerId t))
          (transactions dat)))
   \<and> (\<not> list_ex (\<lambda>t. partnerId t = Some []) (transactions dat) \<longrightarrow>
        totalInvestment (stats dat) =
          js_add (sumAmounts (filter (\<lambda>t. txType t = INVESTMENT) (transactions dat)))
            (sumAmounts (filter (\<lambda>t. txType t = EXPENSE \<and> partnerId t \<noteq> None)
               (transactions dat))))
   \<and> totalIncome (stats dat) =
       sumAmounts (filter (\<lambda>t. txType t = INCOME) (transactions dat))
   \<and> totalExpense (stats dat) =
       sumAmounts (filter (\<lambda>t. txType t = EXPENSE) (transactions dat))
   \<and> netProfit (stats dat) = js_sub (totalIncome (stats dat)) (totalExpense (stats dat))"
proof -
  have present:
    "filter (\<lambda>t. txType t = EXPENSE \<and> opt_truthy (partnerId t)) (transactions dat)
       = filter (\<lambda>t. txType t = EXPENSE \<and> partnerId t \<noteq> None) (transactions dat)"
    if "\<not> list_ex (\<lambda>t. partnerId t = Some []) (transactions dat)"
  proof (rule filter_cong [OF refl])
    fix t assume "t \<in> set (transactions dat)"
    with that have "partnerId t \<noteq> Some []" by (auto simp: list_ex_iff)
    then show "(txType t = EXPENSE \<and> opt_truthy (partnerId t))
                 = (txType t = EXPENSE \<and> partnerId t \<noteq> None)"
      by (cases "partnerId t") (simp_all add: str_truthy_def)
  qed
  have inv: "totalInvestment (stats dat) =
     js_add (sumAmounts (filter (\<lambda>t. txType t = INVESTMENT) (transactions dat)))
       (sumAmounts (filter (\<lambda>t. txType t = EXPENSE \<and> opt_truthy (partnerId t))
          (transactions dat)))"
    by (simp add: stats_def Let_def foldl_statsStep js_add_zero_left)
  have inc: "totalIncome (stats dat) =
       sumAmounts (filter (\<lambda>t. txType t = INCOME) (transactions dat))"
    by (simp add: stats_def Let_def foldl_statsStep js_add_zero_left)
  have exp: "totalExpense (stats dat) =
       sumAmounts (filter (\<lambda>t. txType t = EXPENSE) (transactions dat))"
    by (simp add: stats_def Let_def foldl_statsStep js_add_zero_left)
  have net: "netProfit (stats dat) = js_sub (totalIncome (stats dat)) (totalExpense (stats dat))"
    by (simp add: stats_def Let_def)
  from inv inc exp net present show ?thesis by simp
qed

theorem dashboard_totals_witness:
  "\<not> list_ex (\<lambda>t. partnerId t = Some []) (transactions ex_ledger)
   \<and> totalInvestment (stats ex_ledger) = Fin 800600
   \<and> totalIncome (stats ex_ledger) = Fin 2000
   \<and> totalExpense (stats ex_ledger) = Fin 1000
   \<and> netProfit (stats ex_ledger) = Fin 1000"
  using dashboard_totals [of ex_ledger]
  by (simp add: ex_ledger_def ex_state_def sumAmounts_def sumNums_def js_sub_def
        str_truthy_def)

section \<open>Ownership shares\<close>

lemma foldl_global:
  "foldl (\<lambda>sum t.
              if txType t = INVESTMENT then js_add sum (amount t)
              else if txType t = EXPENSE \<and> opt_truthy (partnerId t) then js_add sum (amount t)
              else sum) acc ts
    = js_add acc (sumAmounts (filter (\<lambda>t. txType t = INVESTMENT
                        \<or> txType t = EXPENSE \<and> opt_truthy (partnerId t)) ts))"
  by (induction ts arbitrary: acc)
     (simp_all add: sumAmounts_Nil sumAmounts_Cons js_add_zero_right js_add_assoc)

lemma globalTotalInvestment_eq:
  "globalTotalInvestment dat
     = sumAmounts (filter (\<lambda>t. txType t = INVESTMENT
                        \<or> txType t = EXPENSE \<and> opt_truthy (partnerId t)) (transactions dat))"
  by (simp add: globalTotalInvestment_def foldl_global js_add_zero_left)

lemma globalPartnerInvested_eq: "globalPartnerInvested dat partner = investedBy dat partner"
  by (simp add: globalPartnerInvested_def investedBy_def foldl_js_add js_add_zero_left
        sumAmounts_def)

lemma sumAmounts_finite:
  "\<forall>t \<in> set ts. \<exists>a. amount t = Fin a \<Longrightarrow>
   sumAmounts ts = Fin (sum_list (map (\<lambda>t. finiteValue (amount t)) ts))"
  by (induction ts) (auto simp: sumAmounts_Nil sumAmounts_Cons)

lemma sumNums_Fin: "sumNums (map (\<lambda>x. Fin (h x)) xs) = Fin (sum_list (map h xs))"
  by (induction xs) (simp_all add: sumNums_Nil sumNums_Cons)

text \<open>Among partners with distinct ids, exactly one has a given id of the list.\<close>

lemma one_owner:
  "distinct (map pt_id ps) \<Longrightarrow> i \<in> pt_id ` set ps \<Longrightarrow>
   sum_list (map (\<lambda>p. if i = pt_id p then v else 0) ps) = (v :: rat)"
proof (induction ps)
  case Nil
  then show ?case by simp
next
  case (Cons p ps)
  show ?case
  proof (cases "i = pt_id p")
    case True
    with Cons.prems have "i \<notin> pt_id ` set ps" by auto
    then have "sum_list (map (\<lambda>p. if i = pt_id p then v else 0) ps) = 0"
      by (induction ps) auto
    with True show ?thesis by simp
  next
    case False
    with Cons show ?thesis by auto
  qed
qed

lemma no_owner: "sum_list (map (\<lambda>p. 0 :: rat) ps) = 0"
  by (induction ps) simp_all

lemma shares_cover:
  assumes ids: "distinct (map pt_id ps)"
    and nonempty: "\<forall>p \<in> set ps. pt_id p \<noteq> []"
    and refs: "\<forall>t \<in> set ts. \<forall>i. partnerId t = Some i \<longrightarrow> i \<in> pt_id ` set ps"
    and inv: "\<forall>t \<in> set ts. txType t = INVESTMENT \<longrightarrow> partnerId t \<noteq> None"
  shows "sum_list (map (\<lambda>p. sum_list (map (\<lambda>t. finiteValue (amount t))
                    (filter (\<lambda>t. partnerId t = Some (pt_id p)
                              \<and> (txType t = INVESTMENT \<or> txType t = EXPENSE)) ts))) ps)
         = sum_list (map (\<lambda>t. finiteValue (amount t))
             (filter (\<lambda>t. txType t = INVESTMENT
                        \<or> txType t = EXPENSE \<and> opt_truthy (partnerId t)) ts))"
  using refs inv
proof (induction ts)
  case Nil
  show ?case by (simp add: no_owner)
next
  case (Cons t ts)
  let ?own = "\<lambda>p t. partnerId t = Some (pt_id p) \<and> (txType t = INVESTMENT \<or> txType t = EXPENSE)"
  let ?rel = "\<lambda>t. txType t = INVESTMENT \<or> txType t = EXPENSE \<and> opt_truthy (partnerId t)"
  let ?v = "finiteValue (amount t)"
  have IH: "sum_list (map (\<lambda>p. sum_list (map (\<lambda>t. finiteValue (amount t)) (filter (?own p) ts))) ps)
         = sum_list (map (\<lambda>t. finiteValue (amount t)) (filter ?rel ts))"
    using Cons by simp
  have split: "sum_list (map (\<lambda>p. sum_list (map (\<lambda>t. finiteValue (amount t))
                    (filter (?own p) (t # ts)))) ps)
      = sum_list (map (\<lambda>p. if ?own p t then ?v else 0) ps)
        + sum_list (map (\<lambda>p. sum_list (map (\<lambda>t. finiteValue (amount t))
                    (filter (?own p) ts))) ps)"
  proof -
    have pt: "sum_list (map (\<lambda>t. finiteValue (amount t)) (filter (?own p) (t # ts)))
        = (if ?own p t then ?v else 0)
          + sum_list (map (\<lambda>t. finiteValue (amount t)) (filter (?own p) ts))" for p
      by auto
    show ?thesis by (simp only: pt sum_list_addf)
  qed
  have head: "sum_list (map (\<lambda>p. if ?own p t then ?v else 0) ps) = (if ?rel t then ?v else 0)"
  proof (cases "partnerId t")
    case None
    with Cons.prems(2) have "txType t \<noteq> INVESTMENT" by auto
    with None show ?thesis by (simp add: no_owner)
  next
    case (Some i)
    with Cons.prems(1) have i: "i \<in> pt_id ` set ps" by auto
    with nonempty have truthy: "opt_truthy (partnerId t)"
      by (auto simp: Some str_truthy_def)
    show ?thesis
    proof (cases "txType t = INVESTMENT \<or> txType t = EXPENSE")
      case True
      then have "sum_list (map (\<lambda>p. if ?own p t then ?v else 0) ps)
                   = sum_list (map (\<lambda>p. if i = pt_id p then ?v else 0) ps)"
        by (simp add: Some)
      also have "\<dots> = ?v" by (rule one_owner [OF ids i])
      finally have "sum_list (map (\<lambda>p. if ?own p t then ?v else 0) ps) = ?v" .
      moreover have "?rel t" using True truthy by auto
      ultimately show ?thesis by (simp only: if_True)
    next
      case False
      then show ?thesis by (simp add: no_owner)
    qed
  qed
  show ?case by (simp only: split head IH) simp
qed


lemma sum_list_scaled:
  "sum_list (map (\<lambda>p. h p / g * 100) ps) = sum_list (map h ps) / g * (100 :: rat)"
  by (induction ps) (simp_all add: add_divide_distrib distrib_right)

lemma global_is_dashboard_total: "globalTotalInvestment dat = totalInvestment (stats dat)"
proof -
  have "sumAmounts (filter (\<lambda>t. txType t = INVESTMENT
                        \<or> txType t = EXPENSE \<and> opt_truthy (partnerId t)) ts)
        = js_add (sumAmounts (filter (\<lambda>t. txType t = INVESTMENT) ts))
            (sumAmounts (filter (\<lambda>t. txType t = EXPENSE \<and> opt_truthy (partnerId t)) ts))"
    for ts :: "Transaction list"
    by (induction ts)
       (simp_all add: sumAmounts_Nil sumAmounts_Cons js_add_zero_left js_add_ac)
  then show ?thesis
    by (simp add: globalTotalInvestment_eq stats_def Let_def foldl_statsStep js_add_zero_left)
qed

text \<open>
  C6. Take a snapshot in which every partner id of a transaction is the id of a
  partner and every INVESTMENT has a partner id; partner ids are distinct and not
  empty, and amounts are finite numbers, as the data model has them. When the global
  total investment is 0, the share of every partner is 0, a finite number. When it
  is greater than 0, the share of each partner is what the partner has put in (the
  sum of the amounts of the partner's INVESTMENT and EXPENSE transactions) divided by
  the global total, times 100, and the shares of all partners sum to 100: exactly,
  the amounts being exact rationals here. The global total of the partner summary is
  the total investment of the dashboard.
\<close>

theorem ownership_shares:
  assumes ids: "distinct (map pt_id (partners dat))"
    and nonempty: "\<forall>p \<in> set (partners dat). pt_id p \<noteq> []"
    and refs: "\<forall>t \<in> set (transactions dat). \<forall>i. partnerId t = Some i \<longrightarrow>
                 i \<in> pt_id ` set (partners dat)"
    and inv: "\<forall>t \<in> set (transactions dat). txType t = INVESTMENT \<longrightarrow> partnerId t \<noteq> None"
    and fin: "\<forall>t \<in> set (transactions dat). \<exists>a. amount t = Fin a"
  shows "(globalTotalInvestment dat = Fin 0 \<longrightarrow>
            (\<forall>p \<in> set (partners dat). sharePercent dat p = Fin 0))
         \<and> (js_gt (globalTotalInvestment dat) (Fin 0) \<longrightarrow>
            (\<exists>g. globalTotalInvestment dat = Fin g \<and> 0 < g
               \<and> (\<forall>p \<in> set (partners dat).
                    \<exists>a. investedBy dat p = Fin a \<and> sharePercent dat p = Fin (a / g * 100)))
            \<and> sumNums (map (sharePercent dat) (partners dat)) = Fin 100)
         \<and> globalTotalInvestment dat = totalInvestment (stats dat)"
proof -
  let ?val = "\<lambda>t. finiteValue (amount t)"
  let ?rel = "\<lambda>t. txType t = INVESTMENT \<or> txType t = EXPENSE \<and> opt_truthy (partnerId t)"
  let ?own = "\<lambda>p t. partnerId t = Some (pt_id p) \<and> (txType t = INVESTMENT \<or> txType t = EXPENSE)"
  let ?G = "sum_list (map ?val (filter ?rel (transactions dat)))"
  let ?I = "\<lambda>p. sum_list (map ?val (filter (?own p) (transactions dat)))"
  have global: "globalTotalInvestment dat = Fin ?G"
    unfolding globalTotalInvestment_eq using fin by (intro sumAmounts_finite) simp
  have invested: "investedBy dat p = Fin (?I p)" for p
    unfolding investedBy_def using fin by (intro sumAmounts_finite) simp
  have cover: "sum_list (map ?I (partners dat)) = ?G"
    by (rule shares_cover [OF ids nonempty refs inv])
  have zero: "sharePercent dat p = Fin 0" if "globalTotalInvestment dat = Fin 0" for p
    using that by (simp add: sharePercent_def)
  have share: "sharePercent dat p = Fin (?I p / ?G * 100)" if "0 < ?G" for p
    using that by (simp add: sharePercent_def global globalPartnerInvested_eq invested)
  have total: "sumNums (map (sharePercent dat) (partners dat)) = Fin 100" if pos: "0 < ?G"
  proof -
    have "map (sharePercent dat) (partners dat) = map (\<lambda>p. Fin (?I p / ?G * 100)) (partners dat)"
      using share [OF pos] by simp
    then have "sumNums (map (sharePercent dat) (partners dat))
                 = Fin (sum_list (map (\<lambda>p. ?I p / ?G * 100) (partners dat)))"
      by (simp only: sumNums_Fin)
    also have "\<dots> = Fin (?G / ?G * 100)"
      by (simp only: sum_list_scaled cover)
    also have "\<dots> = Fin 100" using pos by simp
    finally show ?thesis .
  qed
  have positive: "(\<exists>g. globalTotalInvestment dat = Fin g \<and> 0 < g
               \<and> (\<forall>p \<in> set (partners dat).
                    \<exists>a. investedBy dat p = Fin a \<and> sharePercent dat p = Fin (a / g * 100)))
            \<and> sumNums (map (sharePercent dat) (partners dat)) = Fin 100"
    if "js_gt (globalTotalInvestment dat) (Fin 0)"
  proof -
    from that have pos: "0 < ?G" by (simp add: global)
    from global pos invested share [OF pos] total [OF pos] show ?thesis by blast
  qed
  from zero positive global_is_dashboard_total show ?thesis by blast
qed


theorem ownership_shares_witness:
  "distinct (map pt_id (partners ex_ledger))
   \<and> list_all (\<lambda>p. pt_id p \<noteq> []) (partners ex_ledger)
   \<and> list_all (\<lambda>t. case partnerId t of None \<Rightarrow> True
                    | Some i \<Rightarrow> i \<in> pt_id ` set (partners ex_ledger))
         (transactions ex_ledger)
   \<and> \<not> list_ex (\<lambda>t. txType t = INVESTMENT \<and> partnerId t = None) (transactions ex_ledger)
   \<and> map amount (transactions ex_ledger)
       = [Fin 500000, Fin 300000, Fin 400, Fin 600, Fin 2000]
   \<and> globalTotalInvestment ex_ledger = Fin 800600
   \<and> map (sharePercent ex_ledger) (partners ex_ledger)
       = [Fin (500600 / 800600 * 100), Fin (300000 / 800600 * 100)]
   \<and> sumNums (map (sharePercent ex_ledger) (partners ex_ledger)) = Fin 100
   \<and> globalTotalInvestment (ex_ledger\<lparr>transactions := []\<rparr>) = Fin 0
   \<and> map (sharePercent (ex_ledger\<lparr>transactions := []\<rparr>)) (partners ex_ledger)
       = [Fin 0, Fin 0]"
proof -
  let ?p1 = "\<lparr>pt_id = ''p1'', pt_name = ''A'', avatar = ''a'', color = ''#818CF8''\<rparr>"
  let ?p2 = "\<lparr>pt_id = ''p2'', pt_name = ''B'', avatar = ''b'', color = ''#34D399''\<rparr>"
  let ?empty = "ex_ledger\<lparr>transactions := []\<rparr>"
  have ps: "partners ex_ledger = [?p1, ?p2]" "partners ?empty = [?p1, ?p2]"
    by (simp_all add: ex_ledger_def ex_state_def)
  have ids: "distinct (map pt_id (partners ex_ledger))"
    and nonempty: "\<forall>p \<in> set (partners ex_ledger). pt_id p \<noteq> []"
    by (simp_all add: ps)
  have refs: "\<forall>t \<in> set (transactions ex_ledger). \<forall>i. partnerId t = Some i \<longrightarrow>
                 i \<in> pt_id ` set (partners ex_ledger)"
    and inv: "\<forall>t \<in> set (transactions ex_ledger). txType t = INVESTMENT \<longrightarrow> partnerId t \<noteq> None"
    and fin: "\<forall>t \<in> set (transactions ex_ledger). \<exists>a. amount t = Fin a"
    by (simp_all add: ex_ledger_def ex_state_def)
  have amounts: "map amount (transactions ex_ledger)
       = [Fin 500000, Fin 300000, Fin 400, Fin 600, Fin 2000]"
    by (simp add: ex_ledger_def ex_state_def)
  have g: "globalTotalInvestment ex_ledger = Fin 800600"
    by (simp add: globalTotalInvestment_def ex_ledger_def ex_state_def str_truthy_def)
  have i1: "investedBy ex_ledger ?p1 = Fin 500600" and i2: "investedBy ex_ledger ?p2 = Fin 300000"
    by (simp_all add: investedBy_def sumAmounts_def sumNums_def ex_ledger_def ex_state_def)
  have g0: "globalTotalInvestment ?empty = Fin 0"
    by (simp add: globalTotalInvestment_def)
  note full = ownership_shares [OF ids nonempty refs inv fin]
  note none = ownership_shares [of ?empty]
  from full g have shares: "\<forall>p \<in> set (partners ex_ledger).
      \<exists>a. investedBy ex_ledger p = Fin a \<and> sharePercent ex_ledger p = Fin (a / 800600 * 100)"
    and hundred: "sumNums (map (sharePercent ex_ledger) (partners ex_ledger)) = Fin 100"
    by auto
  from shares i1 i2 have each: "map (sharePercent ex_ledger) (partners ex_ledger)
       = [Fin (500600 / 800600 * 100), Fin (300000 / 800600 * 100)]"
    by (auto simp: ps)
  from none g0 have zero: "map (sharePercent ?empty) (partners ex_ledger) = [Fin 0, Fin 0]"
    by (simp add: ps)
  from ids nonempty refs inv amounts g each hundred g0 zero show ?thesis
    by (simp add: list_all_iff list_ex_iff split: option.split)
qed

section \<open>Editing towards a project-funded source\<close>




section \<open>Deleting a partner\<close>

text \<open>
  C8. Deleting a partner whose id is the \<open>partnerId\<close> of at least one transaction
  always fails: the handler alerts and returns the state it was given, so the list of
  partners and the list of transactions are as before, whatever the remote store
  would have answered.
\<close>

theorem delete_partner_guard:
  "\<exists>t \<in> set (transactions dat). partnerId t = Some i \<Longrightarrow>
   handleDeletePartner i r dat = (Some CannotDeletePartner, dat)"
  by (simp add: handleDeletePartner_def list_ex_iff)

theorem delete_partner_guard_witness:
  "(\<exists>t \<in> set (transactions ex_state). partnerId t = Some ''p1'')
   \<and> handleDeletePartner ''p1'' RemoteOk ex_state = (Some CannotDeletePartner, ex_state)"
proof -
  have ref: "\<exists>t \<in> set (transactions ex_state). partnerId t = Some ''p1''"
    by (simp add: ex_state_def)
  from delete_partner_guard [OF ref, of RemoteOk] ref show ?thesis by simp
qed

section \<open>Merging change events\<close>

lemma updatedList_insert_present:
  "eventType p = ''INSERT'' \<Longrightarrow> new p = Some r \<Longrightarrow> getId (mapRec r) \<in> getId ` set xs \<Longrightarrow>
   updatedList mapRec getId rowId p xs = Inr xs"
  by (auto simp: updatedList_def Let_def find_None_iff)

lemma updatedList_insert_twice:
  "eventType p = ''INSERT'' \<Longrightarrow> updatedList mapRec getId rowId p xs = Inr ys \<Longrightarrow>
   updatedList mapRec getId rowId p ys = Inr ys"
  by (cases "new p") (auto simp: updatedList_def Let_def find_None_iff split: if_splits)

lemma updatedList_update:
  "eventType p = ''UPDATE'' \<Longrightarrow> new p = Some r \<Longrightarrow>
   updatedList mapRec getId rowId p xs
     = Inr (map (\<lambda>item. if getId item = getId (mapRec r) then mapRec r else item) xs)"
  by (simp add: updatedList_def Let_def)

lemma updatedList_delete:
  "eventType p = ''DELETE'' \<Longrightarrow> old p = Some r \<Longrightarrow>
   updatedList mapRec getId rowId p xs = Inr (filter (\<lambda>item. getId item \<noteq> rowId r) xs)"
  by (simp add: updatedList_def)

lemma mapRecord_ids:
  "pt_id (mapRecord_partners a) = pt_id a" "pj_id (mapRecord_projects b) = pr_id b"
  "tx_id (mapRecord_transactions c) = tr_id c"
  by (simp_all add: mapRecord_partners_def mapRecord_projects_def mapRecord_transactions_def)

text \<open>
  C9. For every snapshot and every change event that carries its record: an INSERT of
  a record whose id is in the list of its table leaves the snapshot as it is, and
  applying an INSERT to the result of applying it gives that result again (twice is
  once); an UPDATE replaces the items with the id of the record by the mapped record
  and keeps every other item; a DELETE removes the items with the id of the record
  and keeps every other item. This holds for each of the three tables.
\<close>

theorem realtime_merge:
  "(\<forall>dat'. changeEventType c = ''INSERT'' \<and> handleRealtimeUpdate c dat = Inr dat' \<longrightarrow>
      handleRealtimeUpdate c dat' = Inr dat')
   \<and> (eventType pa = ''INSERT'' \<and> new pa = Some ra \<and> pt_id ra \<in> pt_id ` set (partners dat) \<longrightarrow>
      handleRealtimeUpdate (PartnersChange pa) dat = Inr dat)
   \<and> (eventType pb = ''INSERT'' \<and> new pb = Some rb \<and> pr_id rb \<in> pj_id ` set (projects dat) \<longrightarrow>
      handleRealtimeUpdate (ProjectsChange pb) dat = Inr dat)
   \<and> (eventType pc = ''INSERT'' \<and> new pc = Some rc
        \<and> tr_id rc \<in> tx_id ` set (transactions dat) \<longrightarrow>
      handleRealtimeUpdate (TransactionsChange pc) dat = Inr dat)
   \<and> (eventType pa = ''UPDATE'' \<and> new pa = Some ra \<longrightarrow>
      handleRealtimeUpdate (PartnersChange pa) dat
        = Inr (dat\<lparr>partners :=
                 map (\<lambda>x. if pt_id x = pt_id ra then ra else x) (partners dat)\<rparr>))
   \<and> (eventType pb = ''UPDATE'' \<and> new pb = Some rb \<longrightarrow>
      handleRealtimeUpdate (ProjectsChange pb) dat
        = Inr (dat\<lparr>projects :=
                 map (\<lambda>x. if pj_id x = pr_id rb then mapRecord_projects rb else x)
                   (projects dat)\<rparr>))
   \<and> (eventType pc = ''UPDATE'' \<and> new pc = Some rc \<longrightarrow>
      handleRealtimeUpdate (TransactionsChange pc) dat
        = Inr (dat\<lparr>transactions :=
                 map (\<lambda>x. if tx_id x = tr_id rc then mapRecord_transactions rc else x)
                   (transactions dat)\<rparr>))
   \<and> (eventType pa = ''DELETE'' \<and> old pa = Some ra \<longrightarrow>
      handleRealtimeUpdate (PartnersChange pa) dat
        = Inr (dat\<lparr>partners := filter (\<lambda>x. pt_id x \<noteq> pt_id ra) (partners dat)\<rparr>))
   \<and> (eventType pb = ''DELETE'' \<and> old pb = Some rb \<longrightarrow>
      handleRealtimeUpdate (ProjectsChange pb) dat
        = Inr (dat\<lparr>projects := filter (\<lambda>x. pj_id x \<noteq> pr_id rb) (projects dat)\<rparr>))
   \<and> (eventType pc = ''DELETE'' \<and> old pc = Some rc \<longrightarrow>
      handleRealtimeUpdate (TransactionsChange pc) dat
        = Inr (dat\<lparr>transactions :=
                 filter (\<lambda>x. tx_id x \<noteq> tr_id rc) (transactions dat)\<rparr>))"
proof -
  have twice: "handleRealtimeUpdate c dat' = Inr dat'"
    if "changeEventType c = ''INSERT''" "handleRealtimeUpdate c dat = Inr dat'" for dat'
  proof (cases c)
    case (PartnersChange p)
    with that obtain ys where "updatedList mapRecord_partners pt_id pt_id p (partners dat) = Inr ys"
      and "dat' = dat\<lparr>partners := ys\<rparr>"
      by (auto split: sum.splits)
    with updatedList_insert_twice [of p mapRecord_partners pt_id pt_id "partners dat" ys] that
    show ?thesis by (simp add: PartnersChange)
  next
    case (ProjectsChange p)
    with that obtain ys where "updatedList mapRecord_projects pj_id pr_id p (projects dat) = Inr ys"
      and "dat' = dat\<lparr>projects := ys\<rparr>"
      by (auto split: sum.splits)
    with updatedList_insert_twice [of p mapRecord_projects pj_id pr_id "projects dat" ys] that
    show ?thesis by (simp add: ProjectsChange)
  next
    case (TransactionsChange p)
    with that obtain ys
      where "updatedList mapRecord_transactions tx_id tr_id p (transactions dat) = Inr ys"
      and "dat' = dat\<lparr>transactions := ys\<rparr>"
      by (auto split: sum.splits)
    with updatedList_insert_twice [of p mapRecord_transactions tx_id tr_id "transactions dat" ys]
      that
    show ?thesis by (simp add: TransactionsChange)
  qed
  have ins_a: "handleRealtimeUpdate (PartnersChange pa) dat = Inr dat"
    if "eventType pa = ''INSERT'' \<and> new pa = Some ra \<and> pt_id ra \<in> pt_id ` set (partners dat)"
    using that by (simp add: updatedList_insert_present mapRecord_ids)
  have ins_b: "handleRealtimeUpdate (ProjectsChange pb) dat = Inr dat"
    if "eventType pb = ''INSERT'' \<and> new pb = Some rb \<and> pr_id rb \<in> pj_id ` set (projects dat)"
    using that by (simp add: updatedList_insert_present mapRecord_ids)
  have ins_c: "handleRealtimeUpdate (TransactionsChange pc) dat = Inr dat"
    if "eventType pc = ''INSERT'' \<and> new pc = Some rc
        \<and> tr_id rc \<in> tx_id ` set (transactions dat)"
    using that by (simp add: updatedList_insert_present mapRecord_ids)
  have upd_a: "handleRealtimeUpdate (PartnersChange pa) dat
        = Inr (dat\<lparr>partners :=
                 map (\<lambda>x. if pt_id x = pt_id ra then ra else x) (partners dat)\<rparr>)"
    if "eventType pa = ''UPDATE'' \<and> new pa = Some ra"
    using that by (simp add: updatedList_update mapRecord_partners_def)
  have upd_b: "handleRealtimeUpdate (ProjectsChange pb) dat
        = Inr (dat\<lparr>projects :=
                 map (\<lambda>x. if pj_id x = pr_id rb then mapRecord_projects rb else x)
                   (projects dat)\<rparr>)"
    if "eventType pb = ''UPDATE'' \<and> new pb = Some rb"
    using that by (simp add: updatedList_update mapRecord_ids)
  have upd_c: "handleRealtimeUpdate (TransactionsChange pc) dat
        = Inr (dat\<lparr>transactions :=
                 map (\<lambda>x. if tx_id x = tr_id rc then mapRecord_transactions rc else x)
                   (transactions dat)\<rparr>)"
    if "eventType pc = ''UPDATE'' \<and> new pc = Some rc"
    using that by (simp add: updatedList_update mapRecord_ids)
  have del_a: "handleRealtimeUpdate (PartnersChange pa) dat
        = Inr (dat\<lparr>partners := filter (\<lambda>x. pt_id x \<noteq> pt_id ra) (partners dat)\<rparr>)"
    if "eventType pa = ''DELETE'' \<and> old pa = Some ra"
    using that by (simp add: updatedList_delete)
  have del_b: "handleRealtimeUpdate (ProjectsChange pb) dat
        = Inr (dat\<lparr>projects := filter (\<lambda>x. pj_id x \<noteq> pr_id rb) (projects dat)\<rparr>)"
    if "eventType pb = ''DELETE'' \<and> old pb = Some rb"
    using that by (simp add: updatedList_delete)
  have del_c: "handleRealtimeUpdate (TransactionsChange pc) dat
        = Inr (dat\<lparr>transactions :=
                 filter (\<lambda>x. tx_id x \<noteq> tr_id rc) (transactions dat)\<rparr>)"
    if "eventType pc = ''DELETE'' \<and> old pc = Some rc"
    using that by (simp add: updatedList_delete)
  show ?thesis
    by (intro conjI allI impI twice ins_a ins_b ins_c upd_a upd_b upd_c del_a del_b del_c)
       simp_all
qed


theorem realtime_merge_witness:
  "tr_id ex_row_echo \<in> tx_id ` set (transactions ex_state)
   \<and> handleRealtimeUpdate
         (TransactionsChange \<lparr>eventType = ''INSERT'', new = Some ex_row_echo, old = None\<rparr>)
         ex_state = Inr ex_state
   \<and> handleRealtimeUpdate
         (TransactionsChange \<lparr>eventType = ''INSERT'', new = Some ex_row_new, old = None\<rparr>)
         ex_state
       = Inr (ex_state\<lparr>transactions :=
                transactions ex_state @ [mapRecord_transactions ex_row_new]\<rparr>)
   \<and> handleRealtimeUpdate
         (TransactionsChange \<lparr>eventType = ''INSERT'', new = Some ex_row_new, old = None\<rparr>)
         (ex_state\<lparr>transactions :=
                transactions ex_state @ [mapRecord_transactions ex_row_new]\<rparr>)
       = Inr (ex_state\<lparr>transactions :=
                transactions ex_state @ [mapRecord_transactions ex_row_new]\<rparr>)
   \<and> handleRealtimeUpdate
         (TransactionsChange \<lparr>eventType = ''UPDATE'', new = Some ex_row_changed, old = None\<rparr>)
         ex_state
       = Inr (ex_state\<lparr>transactions :=
                mapRecord_transactions ex_row_changed # tl (transactions ex_state)\<rparr>)
   \<and> handleRealtimeUpdate
         (TransactionsChange \<lparr>eventType = ''DELETE'', new = None, old = Some ex_row_echo\<rparr>)
         ex_state
       = Inr (ex_state\<lparr>transactions := tl (transactions ex_state)\<rparr>)"
proof -
  let ?echo = "\<lparr>eventType = ''INSERT'', new = Some ex_row_echo, old = None\<rparr>"
  let ?fresh = "\<lparr>eventType = ''INSERT'', new = Some ex_row_new, old = None\<rparr>"
  let ?upd = "\<lparr>eventType = ''UPDATE'', new = Some ex_row_changed, old = None\<rparr>"
  let ?del = "\<lparr>eventType = ''DELETE'', new = None, old = Some ex_row_echo\<rparr>"
  let ?after = "ex_state\<lparr>transactions :=
                  transactions ex_state @ [mapRecord_transactions ex_row_new]\<rparr>"
  have present: "tr_id ex_row_echo \<in> tx_id ` set (transactions ex_state)"
    by (simp add: ex_row_echo_def ex_state_def)
  have first: "handleRealtimeUpdate (TransactionsChange ?fresh) ex_state = Inr ?after"
    by (simp add: updatedList_def ex_row_new_def ex_state_def mapRecord_transactions_def)
  note ins = realtime_merge [where c = "TransactionsChange ?fresh" and dat = ex_state
      and pc = ?echo and rc = ex_row_echo]
  note upd = realtime_merge [where dat = ex_state and pc = ?upd and rc = ex_row_changed]
  note del = realtime_merge [where dat = ex_state and pc = ?del and rc = ex_row_echo]
  have echo: "handleRealtimeUpdate (TransactionsChange ?echo) ex_state = Inr ex_state"
    using ins present by simp
  have again: "handleRealtimeUpdate (TransactionsChange ?fresh) ?after = Inr ?after"
    using ins first by simp
  have changed: "handleRealtimeUpdate (TransactionsChange ?upd) ex_state
       = Inr (ex_state\<lparr>transactions :=
                mapRecord_transactions ex_row_changed # tl (transactions ex_state)\<rparr>)"
    using upd by (simp add: ex_row_changed_def ex_row_echo_def ex_state_def)
  have removed: "handleRealtimeUpdate (TransactionsChange ?del) ex_state
       = Inr (ex_state\<lparr>transactions := tl (transactions ex_state)\<rparr>)"
    using del by (simp add: ex_row_echo_def ex_state_def)
  from present echo first again changed removed show ?thesis by simp
qed

section \<open>Split entries that are not positive\<close>





end
